theory Spec2Isabelle
  imports Complex_Main "HOL-Library.AList"
begin

section \<open>The discount and pricing core of AISalesAssistant\<close>

text \<open>
  A shallow embedding of the pricing decision engine: the coupon validator and consumer
  (app/repositories/coupon_repository.py, app/models/coupon.py), the discount option
  catalog (app/config/discount_options.py), the applied-discount ledger
  (app/repositories/discount_repository.py) and the price calculator
  (app/services/price_calculator_service.py, app/models/order.py).

  Conventions.
  \<^item> Python's Decimal is \<open>rat\<close>: the amounts are exact decimal fractions. The
    recommendation scores are Python floats whose operands are short decimal literals;
    they are \<open>rat\<close> as well, so binary rounding of a score is not modelled.
  \<^item> \<open>datetime\<close> values are \<open>int\<close> (a point on one time line), and every reading
    of the clock (\<open>datetime.now()\<close>) is a parameter \<open>now\<close>.
  \<^item> An exception is a value \<open>Inl e\<close> of \<open>py_error + 'a\<close>; a function that reads or
    writes the database session takes the store and, when it can write, returns it.
  \<^item> The relational store is a record of tables, each a list of rows in insertion order.
    A coupon, usage or course row is a record of the declared columns that the code reads
    and writes (a column with a default is not null); a ledger row is a dictionary.
  \<^item> A class of the repository, a pydantic model or a table, is modelled as the source
    declares it: a constructor call with a keyword the class does not declare, or without
    one it requires, and the reading of an attribute it does not have, raise as they do
    in Python.
  \<^item> Record fields keep the source's attribute names behind a short prefix per class
    (\<open>cu_\<close> CouponUsageDB, \<open>cv_\<close> CouponValidation, \<open>crs_\<close> CourseDB, \<open>do_\<close>
    DiscountOption, \<open>oi_\<close> OrderItem, \<open>pc_\<close> PriceCalculation, \<open>pa_\<close> and \<open>opt_\<close>
    the result of the calculator and an entry of its discount_options); CouponDB keeps
    them bare.
    A leading underscore of a Python name is dropped.
  \<^item> The user-facing message strings of the source are Chinese text; each is a
    constructor of \<open>validation_msg\<close> or \<open>reasoning_part\<close>, named by its meaning.
\<close>

subsection \<open>Python values and exceptions\<close>

datatype py_error =
    KeyError string
  | AttributeError string
  | TypeError string
  | ValueError string
  | InvalidOperation
  | ValidationError "string list"
  | MultipleResultsFound

text \<open>\<open>bool(x)\<close> for an \<open>Optional[int]\<close> and an \<open>Optional[Decimal]\<close>: None and zero are falsy.\<close>

definition truthy_int :: "int option \<Rightarrow> bool" where
  "truthy_int x = (case x of None \<Rightarrow> False | Some n \<Rightarrow> n \<noteq> 0)"

definition truthy_dec :: "rat option \<Rightarrow> bool" where
  "truthy_dec x = (case x of None \<Rightarrow> False | Some d \<Rightarrow> d \<noteq> 0)"

text \<open>SQLAlchemy's \<open>Result.scalar_one_or_none()\<close>.\<close>

fun scalar_one_or_none :: "'a list \<Rightarrow> py_error + 'a option" where
  "scalar_one_or_none [] = Inr None"
| "scalar_one_or_none [x] = Inr (Some x)"
| "scalar_one_or_none (x # y # zs) = Inl MultipleResultsFound"

subsection \<open>Dynamically typed values\<close>

text \<open>
  OrderItem (app/models/order.py, lines 30-60), declared here because a list of its
  instances is one of the values passed around.
\<close>

record OrderItem =
  oi_item_id :: string
  oi_course_id :: string
  oi_course_name :: string
  oi_original_price :: rat
  oi_discounted_price :: rat
  oi_quantity :: int

text \<open>
  The values of a \<open>Dict[str, Any]\<close> and of keyword arguments: None, bool, int, a number
  (Decimal or float), str, list, dict (an association list; a key is looked up with
  \<open>map_of\<close>) and a list of OrderItem instances.
\<close>

datatype pyval =
    PyNone
  | PyBool bool
  | PyInt int
  | PyNum rat
  | PyStr string
  | PyList "pyval list"
  | PyDict "(string \<times> pyval) list"
  | PyItems "OrderItem list"

type_synonym pydict = "(string \<times> pyval) list"

fun py_truthy :: "pyval \<Rightarrow> bool" where
  "py_truthy PyNone = False"
| "py_truthy (PyBool b) = b"
| "py_truthy (PyInt n) = (n \<noteq> 0)"
| "py_truthy (PyNum r) = (r \<noteq> 0)"
| "py_truthy (PyStr s) = (s \<noteq> [])"
| "py_truthy (PyList xs) = (xs \<noteq> [])"
| "py_truthy (PyDict d) = (d \<noteq> [])"
| "py_truthy (PyItems xs) = (xs \<noteq> [])"

text \<open>\<open>d[key]\<close>: KeyError on a missing key, TypeError when \<open>d\<close> is not a dict.\<close>

fun py_getitem :: "pyval \<Rightarrow> string \<Rightarrow> py_error + pyval" where
  "py_getitem (PyDict d) k = (case map_of d k of None \<Rightarrow> Inl (KeyError k) | Some v \<Rightarrow> Inr v)"
| "py_getitem v k = Inl (TypeError k)"

text \<open>\<open>d.get(key, default)\<close> on a dict.\<close>

definition py_get :: "pydict \<Rightarrow> string \<Rightarrow> pyval \<Rightarrow> pyval" where
  "py_get d k dflt = (case map_of d k of None \<Rightarrow> dflt | Some v \<Rightarrow> v)"

text \<open>
  The number a value stands for in an order comparison with an int (\<open>x > 2\<close>, \<open>x >= 4\<close>):
  bool, int and number compare by value, any other type raises TypeError.
\<close>

fun py_number :: "pyval \<Rightarrow> py_error + rat" where
  "py_number (PyBool b) = Inr (if b then 1 else 0)"
| "py_number (PyInt n) = Inr (of_int n)"
| "py_number (PyNum r) = Inr r"
| "py_number v = Inl (TypeError ''order comparison'')"

text \<open>
  \<open>Decimal(str(v))\<close>: an int or a number converts exactly; every other value is refused
  (the numeral held in a str, which Python would parse, is not modelled).
\<close>

fun to_decimal :: "pyval \<Rightarrow> py_error + rat" where
  "to_decimal (PyInt n) = Inr (of_int n)"
| "to_decimal (PyNum r) = Inr r"
| "to_decimal v = Inl InvalidOperation"

subsection \<open>Coupons: rows, the Coupon model, the store\<close>

text \<open>
  CouponDB (app/models/database/coupon_db.py). \<open>coupon_type\<close> and \<open>status\<close> are strings in
  the table; the Coupon model reads them as string-valued enums, which compare equal to
  their strings, so the model instance is the same record once \<open>to_model\<close> accepted it.
\<close>

record CouponDB =
  coupon_id :: string
  coupon_code :: string
  coupon_name :: string
  coupon_type :: string
  discount_value :: rat
  min_order_amount :: rat
  max_discount :: "rat option"
  valid_from :: int
  valid_to :: int
  usage_limit :: "int option"
  usage_limit_per_user :: "int option"
  used_count :: int
  applicable_courses :: "string list option"
  description :: "string option"
  status :: string
  created_at :: int
  updated_at :: int

type_synonym Coupon = CouponDB

record CouponUsageDB =
  cu_usage_id :: string
  cu_coupon_id :: string
  cu_coupon_code :: string
  cu_user_id :: string
  cu_order_id :: string
  cu_course_ids :: "string list"
  cu_original_amount :: rat
  cu_discount_amount :: rat
  cu_final_amount :: rat
  cu_used_at :: int

text \<open>CourseDB: the attributes the price calculator reads.\<close>

record CourseDB =
  crs_course_id :: string
  crs_course_name :: string
  crs_current_price :: rat

text \<open>
  The two tables of the ledger, AppliedDiscountDB and DiscountUsageHistoryDB
  (app/models/database/discount_db.py). DiscountRepository addresses them by attribute
  names of which several are not declared, so a row is the dictionary of its attributes
  and each class is the list of the columns it declares.
\<close>

type_synonym orm_row = pydict

definition AppliedDiscountDB_columns :: "string list" where
  "AppliedDiscountDB_columns =
     [''discount_id'', ''user_id'', ''option_type'', ''discount_type'', ''discount_value'',
      ''applicable_course_ids'', ''original_amount'', ''discount_amount'', ''final_amount'',
      ''agent_reasoning'', ''created_by'', ''valid_until'', ''is_used'', ''used_at'',
      ''created_at'']"

definition DiscountUsageHistoryDB_columns :: "string list" where
  "DiscountUsageHistoryDB_columns =
     [''history_id'', ''user_id'', ''discount_id'', ''order_id'', ''option_type'',
      ''discount_amount'', ''course_ids'', ''created_by'', ''used_at'']"

text \<open>
  The constructor SQLAlchemy gives a declarative class takes keyword arguments in order
  and raises TypeError at the first one that is no attribute of the class.
\<close>

fun orm_new :: "string list \<Rightarrow> pydict \<Rightarrow> py_error + orm_row" where
  "orm_new cols [] = Inr []"
| "orm_new cols (kv # kw) =
     (if fst kv \<in> set cols
      then (case orm_new cols kw of Inl e \<Rightarrow> Inl e | Inr row \<Rightarrow> Inr (kv # row))
      else Inl (TypeError (fst kv)))"

text \<open>\<open>Cls.name\<close> in a statement: the column of that name, AttributeError without one.\<close>

definition orm_attr :: "string list \<Rightarrow> string \<Rightarrow> py_error + string" where
  "orm_attr cols name = (if name \<in> set cols then Inr name else Inl (AttributeError name))"

record store =
  coupons :: "CouponDB list"
  coupon_usage :: "CouponUsageDB list"
  courses :: "CourseDB list"
  applied_discounts :: "orm_row list"
  discount_usage_history :: "orm_row list"

definition CouponType_values :: "string list" where
  "CouponType_values = [''percentage'', ''fixed_amount'', ''free_shipping'']"

definition CouponStatus_values :: "string list" where
  "CouponStatus_values = [''active'', ''inactive'', ''expired'', ''used_up'']"

text \<open>
  The fields of a row that the pydantic model Coupon (app/models/coupon.py, lines 27-63)
  refuses, in declaration order: the Field constraints and the two validators.
\<close>

definition Coupon_field_errors :: "CouponDB \<Rightarrow> string list" where
  "Coupon_field_errors c =
     (if 1 \<le> length (coupon_code c) \<and> length (coupon_code c) \<le> 50 then [] else [''coupon_code'']) @
     (if coupon_type c \<in> set CouponType_values then [] else [''coupon_type'']) @
     (if discount_value c < 0 then [''discount_value'']
      else if coupon_type c = ''percentage'' \<and> discount_value c > 1 then [''discount_value'']
      else if coupon_type c = ''fixed_amount'' \<and> discount_value c \<le> 0 then [''discount_value'']
      else []) @
     (if 0 \<le> min_order_amount c then [] else [''min_order_amount'']) @
     (case max_discount c of None \<Rightarrow> [] | Some m \<Rightarrow> if 0 \<le> m then [] else [''max_discount'']) @
     (if valid_from c < valid_to c then [] else [''valid_to'']) @
     (case usage_limit c of None \<Rightarrow> [] | Some n \<Rightarrow> if 1 \<le> n then [] else [''usage_limit'']) @
     (case usage_limit_per_user c of None \<Rightarrow> []
        | Some n \<Rightarrow> if 1 \<le> n then [] else [''usage_limit_per_user'']) @
     (if 0 \<le> used_count c then [] else [''used_count'']) @
     (case description c of None \<Rightarrow> [] | Some d \<Rightarrow> if length d \<le> 500 then [] else [''description'']) @
     (if status c \<in> set CouponStatus_values then [] else [''status''])"

text \<open>CouponRepository.to_model (lines 329-349): \<open>applicable_courses or []\<close>, then validation.\<close>

definition to_model :: "CouponDB \<Rightarrow> py_error + Coupon" where
  "to_model db_coupon =
     (if Coupon_field_errors db_coupon = []
      then Inr (db_coupon\<lparr>applicable_courses :=
                  (case applicable_courses db_coupon of None \<Rightarrow> Some [] | Some cs \<Rightarrow> Some cs)\<rparr>)
      else Inl (ValidationError (Coupon_field_errors db_coupon)))"

text \<open>Coupon.calculate_discount (app/models/coupon.py, lines 80-94).\<close>

definition calculate_discount :: "Coupon \<Rightarrow> rat \<Rightarrow> rat" where
  "calculate_discount self order_amount =
     (if order_amount < min_order_amount self then 0
      else
        let discount = (if coupon_type self = ''percentage''
                        then order_amount * discount_value self
                        else discount_value self);
            discount = (case max_discount self of
                          None \<Rightarrow> discount
                        | Some m \<Rightarrow> if m \<noteq> 0 \<and> discount > m then m else discount)
        in min discount order_amount)"

subsection \<open>The coupon validator\<close>

datatype validation_msg =
    CouponNotFound
  | CouponDeactivated
  | CouponNotStarted
  | CouponExpired
  | UsageLimitReached
  | BelowMinimumOrder rat
  | UserLimitReached

text \<open>CouponValidation (app/models/coupon.py, lines 130-138): its six declared fields.\<close>

record CouponValidation =
  cv_is_valid :: bool
  cv_coupon :: "Coupon option"
  cv_validation_errors :: "validation_msg list"
  cv_applicable_courses :: "string list"
  cv_estimated_discount :: "rat option"
  cv_min_order_required :: "rat option"

definition get_by_coupon_code :: "store \<Rightarrow> string \<Rightarrow> py_error + CouponDB option" where
  "get_by_coupon_code st code =
     scalar_one_or_none (filter (\<lambda>c. coupon_code c = code) (coupons st))"


definition get_user_coupon_usage_count :: "store \<Rightarrow> string \<Rightarrow> string \<Rightarrow> int" where
  "get_user_coupon_usage_count st user_id cid =
     int (length (filter (\<lambda>u. cu_user_id u = user_id \<and> cu_coupon_id u = cid) (coupon_usage st)))"

text \<open>The result of a failed check (every failure passes \<open>estimated_discount=Decimal("0")\<close>).\<close>

definition invalid_result :: "validation_msg \<Rightarrow> Coupon option \<Rightarrow> rat option \<Rightarrow> CouponValidation" where
  "invalid_result msg coupon_model min_required =
     \<lparr>cv_is_valid = False, cv_coupon = coupon_model, cv_validation_errors = [msg],
      cv_applicable_courses = [], cv_estimated_discount = Some 0,
      cv_min_order_required = min_required\<rparr>"

text \<open>Lines 172-179 of validate_coupon_for_user: the discount of an accepted coupon.\<close>

definition validated_discount_amount :: "CouponDB \<Rightarrow> rat \<Rightarrow> rat" where
  "validated_discount_amount coupon order_amount =
     (if coupon_type coupon = ''fixed_amount'' then min (discount_value coupon) order_amount
      else
        let discount_amount = order_amount * discount_value coupon;
            discount_amount = (if truthy_dec (max_discount coupon)
                               then (case max_discount coupon of
                                       None \<Rightarrow> discount_amount
                                     | Some m \<Rightarrow> min discount_amount m)
                               else discount_amount)
        in min discount_amount order_amount)"

text \<open>
  CouponRepository.validate_coupon_for_user (lines 92-187). The function only reads the
  session; the store it leaves is returned beside the result.
\<close>

definition validate_coupon_for_user ::
  "store \<Rightarrow> string \<Rightarrow> string \<Rightarrow> rat \<Rightarrow> int option \<Rightarrow> int \<Rightarrow> (py_error + CouponValidation) \<times> store" where
  "validate_coupon_for_user st code user_id order_amount current_time now =
     (let current_time = (case current_time of None \<Rightarrow> now | Some t \<Rightarrow> t) in
      case get_by_coupon_code st code of
        Inl e \<Rightarrow> (Inl e, st)
      | Inr None \<Rightarrow> (Inr (invalid_result CouponNotFound None None), st)
      | Inr (Some coupon) \<Rightarrow>
          (case to_model coupon of
             Inl e \<Rightarrow> (Inl e, st)
           | Inr coupon_model \<Rightarrow>
               if status coupon \<noteq> ''active''
               then (Inr (invalid_result CouponDeactivated (Some coupon_model) None), st)
               else if current_time < valid_from coupon
               then (Inr (invalid_result CouponNotStarted (Some coupon_model) None), st)
               else if current_time > valid_to coupon
               then (Inr (invalid_result CouponExpired (Some coupon_model) None), st)
               else if truthy_int (usage_limit coupon) \<and>
                       (case usage_limit coupon of None \<Rightarrow> False | Some l \<Rightarrow> used_count coupon \<ge> l)
               then (Inr (invalid_result UsageLimitReached (Some coupon_model) None), st)
               else if order_amount < min_order_amount coupon
               then (Inr (invalid_result (BelowMinimumOrder (min_order_amount coupon))
                            (Some coupon_model) (Some (min_order_amount coupon))), st)
               else if truthy_int (usage_limit_per_user coupon) \<and>
                       (case usage_limit_per_user coupon of None \<Rightarrow> False
                        | Some l \<Rightarrow> get_user_coupon_usage_count st user_id (coupon_id coupon) \<ge> l)
               then (Inr (invalid_result UserLimitReached (Some coupon_model) None), st)
               else (Inr \<lparr>cv_is_valid = True, cv_coupon = Some coupon_model,
                          cv_validation_errors = [],
                          cv_applicable_courses =
                            (case applicable_courses coupon of None \<Rightarrow> [] | Some cs \<Rightarrow> cs),
                          cv_estimated_discount = Some (validated_discount_amount coupon order_amount),
                          cv_min_order_required = None\<rparr>, st)))"


subsection \<open>The claimed behaviour of the validator, in the spec's words\<close>




subsection \<open>The discount option catalog\<close>

text \<open>
  DISCOUNT_OPTIONS_CONFIG (app/config/discount_options.py, lines 9-50): five entries in
  the dict's order, each with the six keys of the source. The three text values of an
  entry are Chinese in the source and stand here in English.
\<close>

definition catalog_entry :: "string \<Rightarrow> rat \<Rightarrow> rat \<Rightarrow> string \<Rightarrow> string \<Rightarrow> pyval" where
  "catalog_entry name lo hi descr guidance =
     PyDict [(''option_name'', PyStr name), (''discount_type'', PyStr ''percentage''),
             (''min_discount'', PyNum lo), (''max_discount'', PyNum hi),
             (''description'', PyStr descr), (''prompt_guidance'', PyStr guidance)]"

definition DISCOUNT_OPTIONS_CONFIG :: "(string \<times> pyval) list" where
  "DISCOUNT_OPTIONS_CONFIG =
     [(''new_user'', catalog_entry ''new user first purchase'' (1/10) (3/10)
          ''first purchase offer for new users'' ''new user with strong intent: 15-25 percent''),
      (''urgent_conversion'', catalog_entry ''urgent conversion'' (15/100) (4/10)
          ''conversion offer for users in a hurry'' ''urgency at least 4 and budget: 20-35 percent''),
      (''returning_user'', catalog_entry ''returning user'' (5/100) (2/10)
          ''repurchase offer for earlier buyers'' ''returning user: 5-15 percent''),
      (''bulk_purchase'', catalog_entry ''bulk purchase'' (1/10) (25/100)
          ''offer for buying several courses'' ''two or more courses''),
      (''vip_discount'', catalog_entry ''VIP'' (2/10) (5/10)
          ''offer for high-value users'' ''high-value users only, with care'')]"








subsection \<open>The applied-discount ledger\<close>

definition py_opt_str :: "string option \<Rightarrow> pyval" where
  "py_opt_str x = (case x of None \<Rightarrow> PyNone | Some v \<Rightarrow> PyStr v)"

text \<open>
  DiscountRepository.create_applied_discount (lines 20-47); 24 hours are 86400 seconds.
  The eight keyword arguments of the constructor call are those of lines 34-43;
  \<open>add\<close> and \<open>flush\<close> append the row. \<open>discount_type\<close> and \<open>discount_value\<close> (here
  \<open>dvalue\<close>) are compared with nothing.
\<close>

definition create_applied_discount ::
  "store \<Rightarrow> string \<Rightarrow> pyval \<Rightarrow> rat \<Rightarrow> string option \<Rightarrow> string option \<Rightarrow> string option \<Rightarrow>
   int option \<Rightarrow> int \<Rightarrow> (py_error + orm_row) \<times> store" where
  "create_applied_discount st user_id discount_type dvalue course_id order_id
     agent_reasoning valid_until now =
     (let valid_until = (case valid_until of None \<Rightarrow> now + 86400 | Some t \<Rightarrow> t) in
      case orm_new AppliedDiscountDB_columns
             [(''user_id'', PyStr user_id), (''discount_type'', discount_type),
              (''discount_value'', PyNum dvalue), (''course_id'', py_opt_str course_id),
              (''order_id'', py_opt_str order_id),
              (''agent_reasoning'', py_opt_str agent_reasoning),
              (''valid_until'', PyInt valid_until), (''is_used'', PyBool False)] of
        Inl e \<Rightarrow> (Inl e, st)
      | Inr db_discount \<Rightarrow>
          (Inr db_discount, st\<lparr>applied_discounts := applied_discounts st @ [db_discount]\<rparr>))"

text \<open>
  \<open>self.get\<close> in use_discount (line 138). DiscountRepository has no base class and
  defines \<open>db\<close> and eleven methods (create_applied_discount, get_user_active_discounts,
  get_best_discount_for_user, _calculate_discount_amount, use_discount,
  get_user_discount_history, get_discount_effectiveness_stats, clean_expired_discounts,
  get_agent_discount_patterns, to_model and the constructor): there is no \<open>get\<close>, so
  the attribute lookup raises AttributeError.
\<close>

definition DiscountRepository_get :: "store \<Rightarrow> pyval \<Rightarrow> py_error + orm_row" where
  "DiscountRepository_get st discount_id = Inl (AttributeError ''get'')"

text \<open>
  DiscountRepository.use_discount (lines 107-147). The statement is built from the class
  attributes \<open>AppliedDiscountDB.id\<close> and \<open>AppliedDiscountDB.is_used\<close>; executed, it
  sets four values on every row that matches and reports their number; then the
  usage-history row is built (its keyword values first, \<open>self.get\<close> among them) and
  added. Every exception inside the \<open>try\<close> becomes the result False (lines 146-147),
  with the session as the statements before it left it.
\<close>

definition use_discount :: "store \<Rightarrow> pyval \<Rightarrow> string \<Rightarrow> rat \<Rightarrow> int \<Rightarrow> bool \<times> store" where
  "use_discount st discount_id order_id actual_discount_amount now =
     (case orm_attr AppliedDiscountDB_columns ''id'' of
        Inl e \<Rightarrow> (False, st)
      | Inr id_col \<Rightarrow>
          (case orm_attr AppliedDiscountDB_columns ''is_used'' of
             Inl e \<Rightarrow> (False, st)
           | Inr used_col \<Rightarrow>
               (let hit = (\<lambda>row. map_of row id_col = Some discount_id \<and>
                                  map_of row used_col = Some (PyBool False));
                    rowcount = length (filter hit (applied_discounts st));
                    set_values = (\<lambda>row.
                       AList.update ''updated_at'' (PyInt now)
                         (AList.update ''order_id'' (PyStr order_id)
                            (AList.update ''used_at'' (PyInt now)
                               (AList.update ''is_used'' (PyBool True) row))));
                    st1 = st\<lparr>applied_discounts :=
                              map (\<lambda>row. if hit row then set_values row else row)
                                (applied_discounts st)\<rparr>
                in if rowcount = 0 then (False, st1)
                   else (case DiscountRepository_get st1 discount_id of
                           Inl e \<Rightarrow> (False, st1)
                         | Inr found \<Rightarrow>
                             (case orm_new DiscountUsageHistoryDB_columns
                                     [(''applied_discount_id'', discount_id),
                                      (''user_id'', py_get found ''user_id'' PyNone),
                                      (''order_id'', PyStr order_id),
                                      (''discount_amount'', PyNum actual_discount_amount),
                                      (''used_at'', PyInt now)] of
                                Inl e \<Rightarrow> (False, st1)
                              | Inr usage_history \<Rightarrow>
                                  (True, st1\<lparr>discount_usage_history :=
                                              discount_usage_history st1 @ [usage_history]\<rparr>))))))"

subsection \<open>The pydantic models of the order layer\<close>

text \<open>
  A pydantic constructor receives keyword arguments, ignores a keyword that names no
  declared field, and raises ValidationError naming every declared field that is required
  and missing or whose value breaks its constraint. A Decimal field takes a number or an
  int, a str field a str, an int field an int; pydantic's further coercions are left out
  (no call site of the price calculator relies on one).
\<close>

definition str_field :: "pydict \<Rightarrow> string \<Rightarrow> string option" where
  "str_field kw k = (case map_of kw k of Some (PyStr x) \<Rightarrow> Some x | _ \<Rightarrow> None)"

definition decimal_field :: "pydict \<Rightarrow> string \<Rightarrow> rat option" where
  "decimal_field kw k =
     (case map_of kw k of Some (PyNum r) \<Rightarrow> Some r | Some (PyInt n) \<Rightarrow> Some (of_int n) | _ \<Rightarrow> None)"

text \<open>A required str field, a required Decimal field with \<open>ge=0\<close>, an optional one.\<close>

definition required_str :: "pydict \<Rightarrow> string \<Rightarrow> string list" where
  "required_str kw k = (case str_field kw k of Some x \<Rightarrow> [] | None \<Rightarrow> [k])"

definition required_amount :: "pydict \<Rightarrow> string \<Rightarrow> string list" where
  "required_amount kw k =
     (case decimal_field kw k of Some r \<Rightarrow> if 0 \<le> r then [] else [k] | None \<Rightarrow> [k])"

definition optional_amount :: "pydict \<Rightarrow> string \<Rightarrow> string list" where
  "optional_amount kw k =
     (case map_of kw k of
        None \<Rightarrow> []
      | Some v \<Rightarrow> (case decimal_field kw k of Some r \<Rightarrow> if 0 \<le> r then [] else [k] | None \<Rightarrow> [k]))"

text \<open>
  OrderItem (app/models/order.py, lines 30-45): item_id, course_id, course_name,
  original_price and discounted_price are required (\<open>Field(...)\<close>), quantity defaults
  to 1; the validator refuses a discounted price above the original price.
\<close>

definition OrderItem_field_errors :: "pydict \<Rightarrow> string list" where
  "OrderItem_field_errors kw =
     required_str kw ''item_id'' @ required_str kw ''course_id'' @
     required_str kw ''course_name'' @ required_amount kw ''original_price'' @
     (case decimal_field kw ''discounted_price'' of
        None \<Rightarrow> [''discounted_price'']
      | Some d \<Rightarrow>
          if d < 0 then [''discounted_price'']
          else (case decimal_field kw ''original_price'' of
                  None \<Rightarrow> []
                | Some p \<Rightarrow> if 0 \<le> p \<and> d > p then [''discounted_price''] else [])) @
     (case map_of kw ''quantity'' of
        None \<Rightarrow> []
      | Some (PyInt n) \<Rightarrow> if 1 \<le> n then [] else [''quantity'']
      | Some v \<Rightarrow> [''quantity''])"

definition OrderItem_new :: "pydict \<Rightarrow> py_error + OrderItem" where
  "OrderItem_new kw =
     (if OrderItem_field_errors kw = []
      then Inr \<lparr>oi_item_id = (case str_field kw ''item_id'' of Some x \<Rightarrow> x | None \<Rightarrow> []),
                oi_course_id = (case str_field kw ''course_id'' of Some x \<Rightarrow> x | None \<Rightarrow> []),
                oi_course_name = (case str_field kw ''course_name'' of Some x \<Rightarrow> x | None \<Rightarrow> []),
                oi_original_price =
                  (case decimal_field kw ''original_price'' of Some r \<Rightarrow> r | None \<Rightarrow> 0),
                oi_discounted_price =
                  (case decimal_field kw ''discounted_price'' of Some r \<Rightarrow> r | None \<Rightarrow> 0),
                oi_quantity = (case map_of kw ''quantity'' of Some (PyInt n) \<Rightarrow> n | _ \<Rightarrow> 1)\<rparr>
      else Inl (ValidationError (OrderItem_field_errors kw)))"

text \<open>
  PriceCalculation (app/models/order.py, lines 158-180): course_items, original_amount,
  final_amount, savings and savings_percentage are required; discount_amount,
  coupon_discount, discount_details and coupon_details have defaults.
\<close>

record PriceCalculation =
  pc_course_items :: "OrderItem list"
  pc_original_amount :: rat
  pc_discount_amount :: rat
  pc_coupon_discount :: rat
  pc_final_amount :: rat
  pc_discount_details :: pydict
  pc_coupon_details :: "pydict option"
  pc_savings :: rat
  pc_savings_percentage :: rat

definition PriceCalculation_fields :: "string list" where
  "PriceCalculation_fields =
     [''course_items'', ''original_amount'', ''discount_amount'', ''coupon_discount'',
      ''final_amount'', ''discount_details'', ''coupon_details'', ''savings'',
      ''savings_percentage'']"

definition PriceCalculation_field_errors :: "pydict \<Rightarrow> string list" where
  "PriceCalculation_field_errors kw =
     (case map_of kw ''course_items'' of Some (PyItems xs) \<Rightarrow> [] | _ \<Rightarrow> [''course_items'']) @
     required_amount kw ''original_amount'' @ optional_amount kw ''discount_amount'' @
     optional_amount kw ''coupon_discount'' @ required_amount kw ''final_amount'' @
     (case map_of kw ''discount_details'' of
        None \<Rightarrow> [] | Some (PyDict d) \<Rightarrow> [] | Some v \<Rightarrow> [''discount_details'']) @
     (case map_of kw ''coupon_details'' of
        None \<Rightarrow> [] | Some PyNone \<Rightarrow> [] | Some (PyDict d) \<Rightarrow> [] | Some v \<Rightarrow> [''coupon_details'']) @
     required_amount kw ''savings'' @
     (case decimal_field kw ''savings_percentage'' of
        Some r \<Rightarrow> if 0 \<le> r \<and> r \<le> 1 then [] else [''savings_percentage'']
      | None \<Rightarrow> [''savings_percentage''])"

definition PriceCalculation_new :: "pydict \<Rightarrow> py_error + PriceCalculation" where
  "PriceCalculation_new kw =
     (if PriceCalculation_field_errors kw = []
      then Inr \<lparr>pc_course_items = (case map_of kw ''course_items'' of Some (PyItems xs) \<Rightarrow> xs | _ \<Rightarrow> []),
                pc_original_amount =
                  (case decimal_field kw ''original_amount'' of Some r \<Rightarrow> r | None \<Rightarrow> 0),
                pc_discount_amount =
                  (case decimal_field kw ''discount_amount'' of Some r \<Rightarrow> r | None \<Rightarrow> 0),
                pc_coupon_discount =
                  (case decimal_field kw ''coupon_discount'' of Some r \<Rightarrow> r | None \<Rightarrow> 0),
                pc_final_amount =
                  (case decimal_field kw ''final_amount'' of Some r \<Rightarrow> r | None \<Rightarrow> 0),
                pc_discount_details =
                  (case map_of kw ''discount_details'' of Some (PyDict d) \<Rightarrow> d | _ \<Rightarrow> []),
                pc_coupon_details =
                  (case map_of kw ''coupon_details'' of Some (PyDict d) \<Rightarrow> Some d | _ \<Rightarrow> None),
                pc_savings = (case decimal_field kw ''savings'' of Some r \<Rightarrow> r | None \<Rightarrow> 0),
                pc_savings_percentage =
                  (case decimal_field kw ''savings_percentage'' of Some r \<Rightarrow> r | None \<Rightarrow> 0)\<rparr>
      else Inl (ValidationError (PriceCalculation_field_errors kw)))"

text \<open>
  Reading an attribute of a model instance where a Decimal is used: a declared Decimal
  field gives its value, a name the class does not declare raises AttributeError.
\<close>

definition PriceCalculation_amount :: "PriceCalculation \<Rightarrow> string \<Rightarrow> py_error + rat" where
  "PriceCalculation_amount pc name =
     (if name = ''original_amount'' then Inr (pc_original_amount pc)
      else if name = ''discount_amount'' then Inr (pc_discount_amount pc)
      else if name = ''coupon_discount'' then Inr (pc_coupon_discount pc)
      else if name = ''final_amount'' then Inr (pc_final_amount pc)
      else if name = ''savings'' then Inr (pc_savings pc)
      else if name \<in> set PriceCalculation_fields then Inl (TypeError name)
      else Inl (AttributeError name))"

definition PriceCalculation_items :: "PriceCalculation \<Rightarrow> string \<Rightarrow> py_error + OrderItem list" where
  "PriceCalculation_items pc name =
     (if name = ''course_items'' then Inr (pc_course_items pc)
      else if name \<in> set PriceCalculation_fields then Inl (TypeError name)
      else Inl (AttributeError name))"

definition CouponValidation_fields :: "string list" where
  "CouponValidation_fields =
     [''is_valid'', ''coupon'', ''validation_errors'', ''applicable_courses'',
      ''estimated_discount'', ''min_order_required'']"

definition CouponValidation_amount :: "CouponValidation \<Rightarrow> string \<Rightarrow> py_error + rat option" where
  "CouponValidation_amount v name =
     (if name = ''estimated_discount'' then Inr (cv_estimated_discount v)
      else if name = ''min_order_required'' then Inr (cv_min_order_required v)
      else if name \<in> set CouponValidation_fields then Inl (TypeError name)
      else Inl (AttributeError name))"

subsection \<open>The price calculator\<close>

text \<open>
  PriceCalculatorService (app/services/price_calculator_service.py). \<open>user_profile\<close> is
  \<open>Optional[Dict[str, Any]]\<close>: None or a dict; \<open>not user_profile\<close> holds for None and
  for the empty dict.
\<close>

definition get_by_course_id :: "store \<Rightarrow> string \<Rightarrow> py_error + CourseDB option" where
  "get_by_course_id st cid =
     scalar_one_or_none (filter (\<lambda>c. crs_course_id c = cid) (courses st))"

text \<open>get_courses (lines 164-171): an id without a course is skipped.\<close>

fun get_courses :: "store \<Rightarrow> string list \<Rightarrow> py_error + CourseDB list" where
  "get_courses st [] = Inr []"
| "get_courses st (course_id # ids) =
     (case get_by_course_id st course_id of
        Inl e \<Rightarrow> Inl e
      | Inr found \<Rightarrow>
          (case get_courses st ids of
             Inl e \<Rightarrow> Inl e
           | Inr cs \<Rightarrow> Inr (case found of None \<Rightarrow> cs | Some course \<Rightarrow> course # cs)))"

text \<open>empty_price_calculation (lines 426-435): the six keywords the service passes.\<close>

definition empty_price_calculation :: "py_error + PriceCalculation" where
  "empty_price_calculation =
     PriceCalculation_new
       [(''original_total'', PyNum 0), (''discount_total'', PyNum 0), (''final_total'', PyNum 0),
        (''coupon_discount'', PyNum 0), (''auto_discount'', PyNum 0), (''items'', PyItems [])]"

datatype reasoning_part =
    KeepOriginalPrice
  | Offer pyval
  | PriceSensitiveUser
  | StrongIntent
  | Saves rat

text \<open>An entry of \<open>discount_options\<close>; \<open>category\<close> is absent from the no-discount entry.\<close>

record option_entry =
  opt_type :: pyval
  opt_value :: pyval
  opt_description :: pyval
  opt_estimated_discount :: rat
  opt_final_amount :: rat
  opt_recommendation_score :: rat
  opt_reasoning :: "reasoning_part list"
  opt_category :: "string option"

text \<open>
  The result of calculate_price_with_options. Its entries \<open>agent_guidance\<close> and
  \<open>user_profile_factors\<close> are texts for the caller, computed without raising from the
  profile alone; they are left out.
\<close>

record PriceAnalysis =
  pa_base_calculation :: PriceCalculation
  pa_discount_options :: "option_entry list"
  pa_recommended_option :: "option_entry option"

text \<open>empty_price_result (lines 416-424).\<close>

definition empty_price_result :: "py_error + PriceAnalysis" where
  "empty_price_result =
     (case empty_price_calculation of
        Inl e \<Rightarrow> Inl e
      | Inr pc \<Rightarrow> Inr \<lparr>pa_base_calculation = pc, pa_discount_options = [],
                       pa_recommended_option = None\<rparr>)"

text \<open>The OrderItem of one course, as lines 192-202 build it.\<close>

definition course_order_item :: "CourseDB \<Rightarrow> py_error + OrderItem" where
  "course_order_item course =
     OrderItem_new
       [(''course_id'', PyStr (crs_course_id course)),
        (''course_name'', PyStr (crs_course_name course)),
        (''original_price'', PyNum (crs_current_price course)),
        (''discount_price'', PyNum (crs_current_price course)),
        (''quantity'', PyInt 1),
        (''subtotal'', PyNum (crs_current_price course))]"

fun course_order_items :: "CourseDB list \<Rightarrow> py_error + OrderItem list" where
  "course_order_items [] = Inr []"
| "course_order_items (course # rest) =
     (case course_order_item course of
        Inl e \<Rightarrow> Inl e
      | Inr item \<Rightarrow>
          (case course_order_items rest of Inl e \<Rightarrow> Inl e | Inr items \<Rightarrow> Inr (item # items)))"

text \<open>
  calculate_base_price (lines 173-213). \<open>code\<close> is the coupon code; an accepted coupon's
  discount is read as \<open>validation.discount_amount\<close> (line 189).
\<close>

definition calculate_base_price ::
  "store \<Rightarrow> CourseDB list \<Rightarrow> string \<Rightarrow> string option \<Rightarrow> int \<Rightarrow> (py_error + PriceCalculation) \<times> store" where
  "calculate_base_price st cs user_id code now =
     (let original_total = sum_list (map crs_current_price cs);
          (coupon, st1) =
            (case code of
               None \<Rightarrow> (Inr (Some 0), st)
             | Some k \<Rightarrow>
                 if k = [] then (Inr (Some 0), st)
                 else (case validate_coupon_for_user st k user_id original_total None now of
                         (Inl e, st') \<Rightarrow> (Inl e, st')
                       | (Inr validation, st') \<Rightarrow>
                           if cv_is_valid validation
                           then (CouponValidation_amount validation ''discount_amount'', st')
                           else (Inr (Some 0), st')))
      in case coupon of
           Inl e \<Rightarrow> (Inl e, st1)
         | Inr coupon_discount \<Rightarrow>
             (case course_order_items cs of
                Inl e \<Rightarrow> (Inl e, st1)
              | Inr items \<Rightarrow>
                  (case coupon_discount of
                     None \<Rightarrow> (Inl (TypeError ''Decimal - NoneType''), st1)
                   | Some cd \<Rightarrow>
                       (PriceCalculation_new
                          [(''original_total'', PyNum original_total),
                           (''discount_total'', PyNum cd),
                           (''final_total'', PyNum (original_total - cd)),
                           (''coupon_discount'', PyNum cd),
                           (''auto_discount'', PyNum 0),
                           (''items'', PyItems items)], st1))))"

text \<open>should_offer_category (lines 264-286).\<close>

definition should_offer_category :: "string \<Rightarrow> pydict option \<Rightarrow> CourseDB list \<Rightarrow> py_error + bool" where
  "should_offer_category category user_profile cs =
     (case user_profile of
        None \<Rightarrow> Inr True
      | Some profile \<Rightarrow>
          if profile = [] then Inr True
          else if category = ''new_user'' \<and> py_truthy (py_get profile ''is_new_user'' (PyBool True))
          then Inr True
          else if category = ''price_sensitive'' \<and>
                  py_get profile ''price_sensitivity'' PyNone = PyStr ''high''
          then Inr True
          else if category = ''loyalty''
          then (case py_number (py_get profile ''purchase_history_count'' (PyInt 0)) of
                  Inl e \<Rightarrow> Inl e
                | Inr n \<Rightarrow>
                    if n > 2 then Inr True
                    else Inr False)
          else if category = ''bulk_purchase'' \<and> length cs \<ge> 2 then Inr True
          else if category = ''general'' then Inr True
          else Inr False)"

text \<open>calculate_discount_amount (lines 288-294).\<close>

definition calculate_discount_amount :: "pyval \<Rightarrow> rat \<Rightarrow> py_error + rat" where
  "calculate_discount_amount option base_amount =
     (case py_getitem option ''type'' of
        Inl e \<Rightarrow> Inl e
      | Inr t \<Rightarrow>
          if t = PyStr ''percentage''
          then (case py_getitem option ''value'' of
                  Inl e \<Rightarrow> Inl e
                | Inr v \<Rightarrow> (case to_decimal v of
                              Inl e \<Rightarrow> Inl e
                            | Inr d \<Rightarrow> Inr (base_amount * (d / 100))))
          else if t = PyStr ''fixed_amount''
          then (case py_getitem option ''value'' of
                  Inl e \<Rightarrow> Inl e
                | Inr v \<Rightarrow> (case to_decimal v of
                              Inl e \<Rightarrow> Inl e
                            | Inr d \<Rightarrow> Inr (min d base_amount)))
          else Inr 0)"

text \<open>calculate_option_score (lines 296-324) and calculate_no_discount_score (lines 326-343).\<close>

definition calculate_option_score :: "pyval \<Rightarrow> pydict option \<Rightarrow> rat \<Rightarrow> py_error + rat" where
  "calculate_option_score option user_profile base_amount =
     (case user_profile of
        None \<Rightarrow> Inr (1/2)
      | Some profile \<Rightarrow>
          if profile = [] then Inr (1/2)
          else
            let price_sensitivity = py_get profile ''price_sensitivity'' (PyStr ''medium'');
                base_score = (if price_sensitivity = PyStr ''high'' then 1/2 + 3/10
                              else if price_sensitivity = PyStr ''low'' then 1/2 - 2/10
                              else 1/2)
            in case calculate_discount_amount option base_amount of
                 Inl e \<Rightarrow> Inl e
               | Inr discount_amount \<Rightarrow>
                   let discount_percentage =
                         (if base_amount > 0 then discount_amount / base_amount * 100 else 0);
                       base_score =
                         (if 10 \<le> discount_percentage \<and> discount_percentage \<le> 25
                          then base_score + 2/10
                          else if discount_percentage > 30 then base_score - 1/10
                          else base_score)
                   in Inr (max 0 (min 1 base_score)))"

definition calculate_no_discount_score :: "pydict option \<Rightarrow> rat" where
  "calculate_no_discount_score user_profile =
     (case user_profile of
        None \<Rightarrow> 3/10
      | Some profile \<Rightarrow>
          if profile = [] then 3/10
          else
            let base_score =
                  (if py_get profile ''price_sensitivity'' PyNone = PyStr ''low'' then 3/10 + 4/10
                   else if py_get profile ''price_sensitivity'' PyNone = PyStr ''high''
                   then 3/10 - 2/10
                   else 3/10);
                base_score =
                  (if py_get profile ''value_perception'' PyNone = PyStr ''high''
                   then base_score + 2/10 else base_score)
            in max 0 (min 1 base_score))"

text \<open>generate_option_reasoning (lines 358-376), as the list of the parts it joins.\<close>

definition generate_option_reasoning ::
  "pyval \<Rightarrow> pydict option \<Rightarrow> rat \<Rightarrow> py_error + reasoning_part list" where
  "generate_option_reasoning option user_profile discount_amount =
     (case py_getitem option ''description'' of
        Inl e \<Rightarrow> Inl e
      | Inr descr \<Rightarrow>
          (case user_profile of
             None \<Rightarrow> Inr [Offer descr, Saves discount_amount]
           | Some profile \<Rightarrow>
               if profile = [] then Inr [Offer descr, Saves discount_amount]
               else
                 let sensitive =
                       (if py_get profile ''price_sensitivity'' PyNone = PyStr ''high''
                        then [PriceSensitiveUser] else [])
                 in case py_number (py_get profile ''urgency_level'' (PyInt 0)) of
                      Inl e \<Rightarrow> Inl e
                    | Inr u \<Rightarrow>
                        Inr ([Offer descr] @ sensitive @
                             (if u \<ge> 4 then [StrongIntent] else []) @
                             [Saves discount_amount])))"

text \<open>\<open>for option in x\<close>: the elements of a list, the keys of a dict, the characters of a str.\<close>

fun py_iter :: "pyval \<Rightarrow> py_error + pyval list" where
  "py_iter (PyList xs) = Inr xs"
| "py_iter (PyDict d) = Inr (map (\<lambda>kv. PyStr (fst kv)) d)"
| "py_iter (PyStr x) = Inr (map (\<lambda>c. PyStr [c]) x)"
| "py_iter (PyItems xs) = Inr (map (\<lambda>i. PyNone) xs)"
| "py_iter v = Inl (TypeError ''not iterable'')"

text \<open>The inner loop of get_discount_options_for_agent (lines 239-258).\<close>

fun category_options ::
  "string \<Rightarrow> pyval list \<Rightarrow> rat \<Rightarrow> pydict option \<Rightarrow> py_error + option_entry list" where
  "category_options category [] base_amount user_profile = Inr []"
| "category_options category (option # rest) base_amount user_profile =
     (case calculate_discount_amount option base_amount of
        Inl e \<Rightarrow> Inl e
      | Inr discount_amount \<Rightarrow>
          if discount_amount > 0
          then (case py_getitem option ''type'' of Inl e \<Rightarrow> Inl e | Inr t \<Rightarrow>
                case py_getitem option ''value'' of Inl e \<Rightarrow> Inl e | Inr v \<Rightarrow>
                case py_getitem option ''description'' of Inl e \<Rightarrow> Inl e | Inr descr \<Rightarrow>
                case calculate_option_score option user_profile base_amount of
                  Inl e \<Rightarrow> Inl e | Inr score \<Rightarrow>
                case generate_option_reasoning option user_profile discount_amount of
                  Inl e \<Rightarrow> Inl e | Inr reasoning \<Rightarrow>
                case category_options category rest base_amount user_profile of
                  Inl e \<Rightarrow> Inl e
                | Inr entries \<Rightarrow>
                    Inr (\<lparr>opt_type = t, opt_value = v, opt_description = descr,
                          opt_estimated_discount = discount_amount,
                          opt_final_amount = base_amount - discount_amount,
                          opt_recommendation_score = score, opt_reasoning = reasoning,
                          opt_category = Some category\<rparr> # entries))
          else category_options category rest base_amount user_profile)"

text \<open>The outer loop (lines 237-239): the categories of the catalog, in the dict's order.\<close>

fun catalog_options ::
  "(string \<times> pyval) list \<Rightarrow> CourseDB list \<Rightarrow> rat \<Rightarrow> pydict option \<Rightarrow> py_error + option_entry list" where
  "catalog_options [] cs base_amount user_profile = Inr []"
| "catalog_options ((category, config) # rest) cs base_amount user_profile =
     (case should_offer_category category user_profile cs of
        Inl e \<Rightarrow> Inl e
      | Inr offer \<Rightarrow>
          (case (if offer
                 then (case py_getitem config ''options'' of
                         Inl e \<Rightarrow> Inl e
                       | Inr opts \<Rightarrow>
                           (case py_iter opts of
                              Inl e \<Rightarrow> Inl e
                            | Inr xs \<Rightarrow> category_options category xs base_amount user_profile))
                 else Inr []) of
             Inl e \<Rightarrow> Inl e
           | Inr entries \<Rightarrow>
               (case catalog_options rest cs base_amount user_profile of
                  Inl e \<Rightarrow> Inl e
                | Inr later \<Rightarrow> Inr (entries @ later))))"

definition no_discount_option :: "rat \<Rightarrow> pydict option \<Rightarrow> option_entry" where
  "no_discount_option base_amount user_profile =
     \<lparr>opt_type = PyStr ''none'', opt_value = PyInt 0,
      opt_description = PyStr ''no extra discount'', opt_estimated_discount = 0,
      opt_final_amount = base_amount,
      opt_recommendation_score = calculate_no_discount_score user_profile,
      opt_reasoning = [KeepOriginalPrice], opt_category = None\<rparr>"

text \<open>
  get_discount_options_for_agent (lines 215-262). \<open>list.sort(key, reverse=True)\<close> is
  stable: entries of equal score keep their order.
\<close>

definition get_discount_options_for_agent ::
  "string \<Rightarrow> CourseDB list \<Rightarrow> rat \<Rightarrow> pydict option \<Rightarrow> py_error + option_entry list" where
  "get_discount_options_for_agent user_id cs base_amount user_profile =
     (case catalog_options DISCOUNT_OPTIONS_CONFIG cs base_amount user_profile of
        Inl e \<Rightarrow> Inl e
      | Inr entries \<Rightarrow>
          Inr (sort_key (\<lambda>x. - opt_recommendation_score x)
                 (no_discount_option base_amount user_profile # entries)))"

text \<open>select_recommended_option (lines 345-356): \<open>max\<close> returns the first entry of top score.\<close>

definition select_recommended_option :: "option_entry list \<Rightarrow> option_entry option" where
  "select_recommended_option options =
     (case options of
        [] \<Rightarrow> None
      | x # xs \<Rightarrow>
          Some (fold (\<lambda>y best. if opt_recommendation_score y > opt_recommendation_score best
                              then y else best) xs x))"

text \<open>calculate_price_with_options (lines 35-75).\<close>

definition calculate_price_with_options ::
  "store \<Rightarrow> string list \<Rightarrow> string \<Rightarrow> pydict option \<Rightarrow> string option \<Rightarrow> int \<Rightarrow>
   (py_error + PriceAnalysis) \<times> store" where
  "calculate_price_with_options st course_ids user_id user_profile code now =
     (case get_courses st course_ids of
        Inl e \<Rightarrow> (Inl e, st)
      | Inr cs \<Rightarrow>
          if cs = [] then (empty_price_result, st)
          else (case calculate_base_price st cs user_id code now of
                  (Inl e, st1) \<Rightarrow> (Inl e, st1)
                | (Inr base_calculation, st1) \<Rightarrow>
                    (case PriceCalculation_amount base_calculation ''original_total'' of
                       Inl e \<Rightarrow> (Inl e, st1)
                     | Inr original_total \<Rightarrow>
                         (case get_discount_options_for_agent user_id cs original_total
                                 user_profile of
                            Inl e \<Rightarrow> (Inl e, st1)
                          | Inr discount_options \<Rightarrow>
                              (Inr \<lparr>pa_base_calculation = base_calculation,
                                    pa_discount_options = discount_options,
                                    pa_recommended_option =
                                      select_recommended_option discount_options\<rparr>, st1)))))"

text \<open>
  Lines 106-113 of apply_agent_discount_decision: the amount of the selected discount
  against \<open>original_total\<close>.
\<close>

definition agent_discount_amount :: "pydict \<Rightarrow> rat \<Rightarrow> py_error + rat" where
  "agent_discount_amount selected original_total =
     (case py_getitem (PyDict selected) ''type'' of
        Inl e \<Rightarrow> Inl e
      | Inr t \<Rightarrow>
          if t = PyStr ''percentage''
          then (case py_getitem (PyDict selected) ''value'' of
                  Inl e \<Rightarrow> Inl e
                | Inr v \<Rightarrow> (case to_decimal v of
                              Inl e \<Rightarrow> Inl e
                            | Inr d \<Rightarrow> Inr (original_total * (d / 100))))
          else if t = PyStr ''fixed_amount''
          then (case py_getitem (PyDict selected) ''value'' of
                  Inl e \<Rightarrow> Inl e
                | Inr v \<Rightarrow> (case to_decimal v of
                              Inl e \<Rightarrow> Inl e
                            | Inr d \<Rightarrow> Inr (min d original_total)))
          else Inr 0)"

text \<open>
  Lines 96-113: nothing for a falsy selection or for type "none"; otherwise the
  applied-discount record is created first, then the amount is computed.
\<close>

definition apply_selected_discount ::
  "store \<Rightarrow> string \<Rightarrow> pydict \<Rightarrow> string \<Rightarrow> PriceCalculation \<Rightarrow> int \<Rightarrow> (py_error + rat) \<times> store" where
  "apply_selected_discount st user_id selected agent_reasoning base_calculation now =
     (if selected = [] \<or> py_get selected ''type'' PyNone = PyStr ''none'' then (Inr 0, st)
      else case py_getitem (PyDict selected) ''type'' of
             Inl e \<Rightarrow> (Inl e, st)
           | Inr t \<Rightarrow>
               (case py_getitem (PyDict selected) ''value'' of
                  Inl e \<Rightarrow> (Inl e, st)
                | Inr v \<Rightarrow>
                    (case to_decimal v of
                       Inl e \<Rightarrow> (Inl e, st)
                     | Inr d \<Rightarrow>
                         (case create_applied_discount st user_id t d None None
                                 (Some agent_reasoning) None now of
                            (Inl e, st1) \<Rightarrow> (Inl e, st1)
                          | (Inr discount_db, st1) \<Rightarrow>
                              if t = PyStr ''percentage'' \<or> t = PyStr ''fixed_amount''
                              then (case PriceCalculation_amount base_calculation
                                           ''original_total'' of
                                      Inl e \<Rightarrow> (Inl e, st1)
                                    | Inr original_total \<Rightarrow>
                                        (agent_discount_amount selected original_total, st1))
                              else (Inr 0, st1)))))"

text \<open>apply_agent_discount_decision (lines 77-126).\<close>

definition apply_agent_discount_decision ::
  "store \<Rightarrow> string \<Rightarrow> string list \<Rightarrow> pydict \<Rightarrow> string \<Rightarrow> string option \<Rightarrow> int \<Rightarrow>
   (py_error + PriceCalculation) \<times> store" where
  "apply_agent_discount_decision st user_id course_ids selected agent_reasoning code now =
     (case get_courses st course_ids of
        Inl e \<Rightarrow> (Inl e, st)
      | Inr cs \<Rightarrow>
          if cs = [] then (empty_price_calculation, st)
          else (case calculate_base_price st cs user_id code now of
                  (Inl e, st1) \<Rightarrow> (Inl e, st1)
                | (Inr base_calculation, st1) \<Rightarrow>
                    (case apply_selected_discount st1 user_id selected agent_reasoning
                            base_calculation now of
                       (Inl e, st2) \<Rightarrow> (Inl e, st2)
                     | (Inr agent_discount, st2) \<Rightarrow>
                         (case PriceCalculation_amount base_calculation ''coupon_discount'' of
                            Inl e \<Rightarrow> (Inl e, st2)
                          | Inr coupon_discount \<Rightarrow>
                              (case PriceCalculation_amount base_calculation ''original_total'' of
                                 Inl e \<Rightarrow> (Inl e, st2)
                               | Inr original_total \<Rightarrow>
                                   (case PriceCalculation_items base_calculation ''items'' of
                                      Inl e \<Rightarrow> (Inl e, st2)
                                    | Inr items \<Rightarrow>
                                        (let total_discount = coupon_discount + agent_discount;
                                             final_total = max (original_total - total_discount) 0
                                         in (PriceCalculation_new
                                               [(''original_total'', PyNum original_total),
                                                (''discount_total'', PyNum total_discount),
                                                (''final_total'', PyNum final_total),
                                                (''coupon_discount'', PyNum coupon_discount),
                                                (''auto_discount'', PyNum agent_discount),
                                                (''items'', PyItems items)], st2))))))))"

subsection \<open>Concrete coupons and stores used by the scenarios\<close>

definition example_coupon :: CouponDB where
  "example_coupon =
     \<lparr>coupon_id = ''c1'', coupon_code = ''SAVE20'', coupon_name = ''save'',
      coupon_type = ''percentage'', discount_value = 1/5, min_order_amount = 0,
      max_discount = Some 50, valid_from = 0, valid_to = 100, usage_limit = None,
      usage_limit_per_user = None, used_count = 0, applicable_courses = None,
      description = None, status = ''active'', created_at = 0, updated_at = 0\<rparr>"

definition store_of_coupons :: "CouponDB list \<Rightarrow> store" where
  "store_of_coupons cs =
     \<lparr>coupons = cs, coupon_usage = [], courses = [], applied_discounts = [],
      discount_usage_history = []\<rparr>"

definition zero_cap_coupon :: CouponDB where
  "zero_cap_coupon = example_coupon\<lparr>coupon_id := ''c0'', coupon_code := ''ZERO'', max_discount := Some 0\<rparr>"

definition capped_fixed_coupon :: CouponDB where
  "capped_fixed_coupon =
     example_coupon\<lparr>coupon_id := ''c2'', coupon_code := ''FIX50'', coupon_type := ''fixed_amount'',
                     discount_value := 50, max_discount := Some 30\<rparr>"


text \<open>A ledger with one unused record, as the table declares it.\<close>

definition ledger_store :: store where
  "ledger_store =
     \<lparr>coupons = [], coupon_usage = [], courses = [],
      applied_discounts =
        [[(''discount_id'', PyStr ''d1''), (''user_id'', PyStr ''u1''),
          (''option_type'', PyStr ''new_user''), (''discount_type'', PyStr ''percentage''),
          (''discount_value'', PyNum (15/100)),
          (''applicable_course_ids'', PyList [PyStr ''ml500'']),
          (''original_amount'', PyNum 500), (''discount_amount'', PyNum 75),
          (''final_amount'', PyNum 425), (''valid_until'', PyInt 86400),
          (''is_used'', PyBool False)]],
      discount_usage_history = []\<rparr>"

text \<open>Scenario E: one course priced 299.00, a profile with high price sensitivity.\<close>

definition scenario_E_course :: CourseDB where
  "scenario_E_course =
     \<lparr>crs_course_id = ''py101'', crs_course_name = ''Python'', crs_current_price = 299\<rparr>"

definition scenario_E_store :: store where
  "scenario_E_store =
     \<lparr>coupons = [], coupon_usage = [], courses = [scenario_E_course],
      applied_discounts = [], discount_usage_history = []\<rparr>"

definition scenario_E_profile :: pydict where
  "scenario_E_profile = [(''price_sensitivity'', PyStr ''high'')]"

text \<open>Scenario F: a base of 500.00, no coupon, the selection percentage 0.15.\<close>

definition scenario_F_store :: store where
  "scenario_F_store =
     \<lparr>coupons = [], coupon_usage = [],
      courses = [\<lparr>crs_course_id = ''ml500'', crs_course_name = ''ML'', crs_current_price = 500\<rparr>],
      applied_discounts = [], discount_usage_history = []\<rparr>"

definition scenario_F_selected :: pydict where
  "scenario_F_selected = [(''type'', PyStr ''percentage''), (''value'', PyNum (15/100))]"

text \<open>A course of 1000.00 and the 20 percent coupon capped at 50.00.\<close>

definition coupon_order_course :: CourseDB where
  "coupon_order_course =
     \<lparr>crs_course_id = ''ds1000'', crs_course_name = ''Data'', crs_current_price = 1000\<rparr>"

definition coupon_order_store :: store where
  "coupon_order_store =
     \<lparr>coupons = [example_coupon], coupon_usage = [], courses = [coupon_order_course],
      applied_discounts = [], discount_usage_history = []\<rparr>"


text \<open>
  Whether should_offer_category accepts some key of the catalog: without a profile every
  key; with one, \<open>new_user\<close> unless \<open>is_new_user\<close> is falsy, and \<open>bulk_purchase\<close> from
  two courses on. The other three names the function knows (\<open>price_sensitive\<close>,
  \<open>loyalty\<close>, \<open>general\<close>) are not keys of the catalog.
\<close>

definition offers_any :: "pydict option \<Rightarrow> CourseDB list \<Rightarrow> bool" where
  "offers_any user_profile cs =
     (case user_profile of
        None \<Rightarrow> True
      | Some profile \<Rightarrow>
          profile = [] \<or> py_truthy (py_get profile ''is_new_user'' (PyBool True)) \<or>
          length cs \<ge> 2)"

section \<open>Theorems\<close>

subsection \<open>Helper lemmas on keyed tables\<close>





subsection \<open>The coupon validator\<close>



lemma validated_le_amount: "validated_discount_amount c amount \<le> amount"
  by (simp add: validated_discount_amount_def Let_def)

lemma validated_le_cap:
  "max_discount c = Some m \<Longrightarrow> m \<noteq> 0 \<Longrightarrow> coupon_type c \<noteq> ''fixed_amount'' \<Longrightarrow>
   validated_discount_amount c amount \<le> m"
  by (simp add: validated_discount_amount_def Let_def truthy_dec_def min_def)

lemma validate_valid_shape:
  "validate_coupon_for_user st code u amount ct now = (Inr v, st') \<Longrightarrow> cv_is_valid v \<Longrightarrow>
   \<exists>c. get_by_coupon_code st code = Inr (Some c) \<and>
       cv_estimated_discount v = Some (validated_discount_amount c amount)"
  unfolding validate_coupon_for_user_def Let_def
  by (auto simp: invalid_result_def split: sum.splits option.splits if_splits)

lemma example_coupon_ok: "Coupon_field_errors example_coupon = []"
  by (simp add: Coupon_field_errors_def example_coupon_def CouponType_values_def
        CouponStatus_values_def)




text \<open>
  C9. Validation leaves the store as it found it, and a second call with the same
  arguments (the same reference time and clock reading) on the store the first call left
  returns the same result.
\<close>

theorem validate_deterministic_no_effect:
  "snd (validate_coupon_for_user st code user_id order_amount current_time now) = st \<and>
   (case validate_coupon_for_user st code user_id order_amount current_time now of
      (r1, s1) \<Rightarrow>
        (case validate_coupon_for_user s1 code user_id order_amount current_time now of
           (r2, s2) \<Rightarrow> r1 = r2 \<and> s2 = st))"
proof -
  have s: "snd (validate_coupon_for_user st code user_id order_amount current_time now) = st"
    unfolding validate_coupon_for_user_def Let_def
    by (simp split: sum.splits option.splits)
  then show ?thesis
    by (cases "validate_coupon_for_user st code user_id order_amount current_time now") auto
qed

subsection \<open>Coupon discounts are bounded\<close>

lemma calculate_discount_le_amount:
  "0 \<le> amount \<Longrightarrow> calculate_discount c amount \<le> amount"
  by (simp add: calculate_discount_def Let_def split: option.splits)

lemma calculate_discount_le_cap:
  "max_discount c = Some m \<Longrightarrow> 0 < m \<Longrightarrow> calculate_discount c amount \<le> m"
  by (auto simp add: calculate_discount_def Let_def min_def split: option.splits)

text \<open>
  C7, as amended. For an order amount of at least zero \<open>Coupon.calculate_discount\<close> is at
  most the order amount, and at most \<open>max_discount\<close> when that is set and greater than
  zero. A discount computed by \<open>validate_coupon_for_user\<close> is at most the order amount,
  and at most \<open>max_discount\<close> when that is set and not zero and the coupon is not of type
  \<open>fixed_amount\<close>. Scenario D: the 20 percent coupon with \<open>max_discount\<close> 50 on an order
  of 1000 gives 50 on both paths, leaving 950.
\<close>

theorem coupon_discount_bounds:
  "(0 \<le> amount \<longrightarrow> calculate_discount c amount \<le> amount) \<and>
   (max_discount c = Some m \<and> 0 < m \<longrightarrow> calculate_discount c amount \<le> m) \<and>
   (validate_coupon_for_user st code user_id amount current_time now = (Inr v, st') \<and>
    cv_is_valid v \<longrightarrow>
      (\<exists>coupon d. get_by_coupon_code st code = Inr (Some coupon) \<and>
         cv_estimated_discount v = Some d \<and> d \<le> amount \<and>
         (if coupon_type coupon = ''fixed_amount'' then True
          else case max_discount coupon of None \<Rightarrow> True | Some cap \<Rightarrow> cap = 0 \<or> d \<le> cap))) \<and>
   calculate_discount example_coupon 1000 = 50 \<and>
   1000 - calculate_discount example_coupon 1000 = 950 \<and>
   validated_discount_amount example_coupon 1000 = 50"
proof (intro conjI impI)
  assume "0 \<le> amount"
  then show "calculate_discount c amount \<le> amount" by (rule calculate_discount_le_amount)
next
  assume "max_discount c = Some m \<and> 0 < m"
  then show "calculate_discount c amount \<le> m" by (simp add: calculate_discount_le_cap)
next
  assume a: "validate_coupon_for_user st code user_id amount current_time now = (Inr v, st') \<and>
    cv_is_valid v"
  then obtain coupon where g: "get_by_coupon_code st code = Inr (Some coupon)"
    and d: "cv_estimated_discount v = Some (validated_discount_amount coupon amount)"
    using validate_valid_shape by blast
  have "if coupon_type coupon = ''fixed_amount'' then True
        else case max_discount coupon of None \<Rightarrow> True
             | Some cap \<Rightarrow> cap = 0 \<or> validated_discount_amount coupon amount \<le> cap"
    using validated_le_cap [of coupon _ amount] by (auto split: option.splits)
  with g d validated_le_amount [of coupon amount]
  show "\<exists>coupon d. get_by_coupon_code st code = Inr (Some coupon) \<and>
         cv_estimated_discount v = Some d \<and> d \<le> amount \<and>
         (if coupon_type coupon = ''fixed_amount'' then True
          else case max_discount coupon of None \<Rightarrow> True | Some cap \<Rightarrow> cap = 0 \<or> d \<le> cap)"
    by blast
next
  show "calculate_discount example_coupon 1000 = 50"
    by (simp add: calculate_discount_def example_coupon_def)
  then show "1000 - calculate_discount example_coupon 1000 = 950" by simp
  show "validated_discount_amount example_coupon 1000 = 50"
    by (simp add: validated_discount_amount_def example_coupon_def truthy_dec_def)
qed

theorem coupon_discount_bounds_witness:
  "(0::rat) \<le> 1000 \<and> max_discount example_coupon = Some 50 \<and>
   calculate_discount example_coupon 1000 \<le> 1000 \<and>
   calculate_discount example_coupon 1000 \<le> 50 \<and>
   (\<exists>coupon d. get_by_coupon_code (store_of_coupons [example_coupon]) ''SAVE20'' = Inr (Some coupon) \<and>
      coupon_type coupon = ''percentage'' \<and> max_discount coupon = Some 50 \<and> d \<le> 50 \<and>
      fst (validate_coupon_for_user (store_of_coupons [example_coupon]) ''SAVE20'' ''u1'' 1000
             (Some 5) 7) =
        Inr \<lparr>cv_is_valid = True,
             cv_coupon = Some (example_coupon\<lparr>applicable_courses := Some []\<rparr>),
             cv_validation_errors = [], cv_applicable_courses = [],
             cv_estimated_discount = Some d, cv_min_order_required = None\<rparr>)"
proof -
  let ?st = "store_of_coupons [example_coupon]"
  let ?v = "\<lparr>cv_is_valid = True,
             cv_coupon = Some (example_coupon\<lparr>applicable_courses := Some []\<rparr>),
             cv_validation_errors = [], cv_applicable_courses = [],
             cv_estimated_discount = Some (50::rat), cv_min_order_required = None\<rparr>"
  have m: "max_discount example_coupon = Some 50" by (simp add: example_coupon_def)
  have r: "validate_coupon_for_user ?st ''SAVE20'' ''u1'' 1000 (Some 5) 7 = (Inr ?v, ?st)"
    by (simp add: validate_coupon_for_user_def get_by_coupon_code_def store_of_coupons_def
          to_model_def example_coupon_ok)
       (simp add: example_coupon_def truthy_int_def truthy_dec_def
          validated_discount_amount_def)
  have g: "get_by_coupon_code ?st ''SAVE20'' = Inr (Some example_coupon)"
    by (simp add: get_by_coupon_code_def store_of_coupons_def example_coupon_def)
  from coupon_discount_bounds [where amount=1000 and c=example_coupon and m=50 and st="?st"
      and code="''SAVE20''" and user_id="''u1''" and current_time="Some 5" and now=7
      and v="?v" and st'="?st"] m r
  have b: "calculate_discount example_coupon 1000 \<le> 1000"
    "calculate_discount example_coupon 1000 \<le> 50"
    by simp_all
  have "coupon_type example_coupon = ''percentage''" by (simp add: example_coupon_def)
  with b m g r show ?thesis by simp
qed

text \<open>
  C7 as stated fails twice. \<open>validate_coupon_for_user\<close> applies no cap to a
  \<open>fixed_amount\<close> coupon: value 50 with \<open>max_discount\<close> 30 on an order of 100 gives 50.
  And both paths treat \<open>max_discount = 0\<close> as no cap: 20 percent of 100 gives 20.
\<close>

theorem coupon_cap_counterexample:
  "max_discount capped_fixed_coupon = Some 30 \<and>
   (case fst (validate_coupon_for_user (store_of_coupons [capped_fixed_coupon])
               ''FIX50'' ''u1'' 100 (Some 5) 7) of
      Inl e \<Rightarrow> None
    | Inr v \<Rightarrow> if cv_is_valid v then cv_estimated_discount v else None) = Some 50 \<and>
   max_discount zero_cap_coupon = Some 0 \<and>
   calculate_discount zero_cap_coupon 100 = 20"
  by (simp add: validate_coupon_for_user_def get_by_coupon_code_def store_of_coupons_def
        capped_fixed_coupon_def zero_cap_coupon_def example_coupon_def to_model_def
        Coupon_field_errors_def CouponType_values_def CouponStatus_values_def truthy_int_def
        truthy_dec_def validated_discount_amount_def calculate_discount_def Let_def)

subsection \<open>Consuming a coupon\<close>



subsection \<open>The catalog and the ledger\<close>





text \<open>
  C4. On an existing unused record (\<open>d1\<close> of \<open>ledger_store\<close>) \<open>use_discount\<close> returns
  False, leaves the record unused and appends no usage-history row; and so it does on
  every store and every id. Building the UPDATE reads \<open>AppliedDiscountDB.id\<close>, an
  attribute the class does not have (its key is \<open>discount_id\<close>): AttributeError, which
  the \<open>except\<close> clause turns into False.
\<close>

theorem use_discount_returns_false:
  "use_discount ledger_store (PyStr ''d1'') ''o1'' 75 10 = (False, ledger_store) \<and>
   use_discount ledger_store (PyInt 1) ''o1'' 75 10 = (False, ledger_store) \<and>
   use_discount st i oid amt now = (False, st)"
  by (simp add: use_discount_def orm_attr_def AppliedDiscountDB_columns_def)

subsection \<open>The price calculator\<close>

lemma catalog_options_config:
  "catalog_options DISCOUNT_OPTIONS_CONFIG cs b p =
     (if offers_any p cs then Inl (KeyError ''options'') else Inr [])"
  by (simp add: DISCOUNT_OPTIONS_CONFIG_def catalog_entry_def should_offer_category_def
        offers_any_def split: option.splits)

lemma options_for_agent:
  "get_discount_options_for_agent u cs b p =
     (if offers_any p cs then Inl (KeyError ''options'') else Inr [no_discount_option b p])"
  by (simp add: get_discount_options_for_agent_def catalog_options_config)

lemma course_order_item_fails:
  "\<exists>errs. course_order_item c = Inl (ValidationError errs) \<and> ''item_id'' \<in> set errs"
  by (simp add: course_order_item_def OrderItem_new_def OrderItem_field_errors_def
        required_str_def str_field_def)

lemma course_order_item_value:
  "0 \<le> crs_current_price c \<Longrightarrow>
   course_order_item c = Inl (ValidationError [''item_id'', ''discounted_price''])"
  by (simp add: course_order_item_def OrderItem_new_def OrderItem_field_errors_def
        required_str_def str_field_def required_amount_def decimal_field_def)

lemma course_order_items_fail:
  "cs \<noteq> [] \<Longrightarrow> isl (course_order_items cs)"
proof (cases cs)
  case Nil
  then show "cs \<noteq> [] \<Longrightarrow> isl (course_order_items cs)" by simp
next
  case (Cons c rest)
  obtain errs where "course_order_item c = Inl (ValidationError errs)"
    using course_order_item_fails by blast
  with Cons show ?thesis by simp
qed

lemma service_price_calculation_fails:
  "isl (PriceCalculation_new
          [(''original_total'', a), (''discount_total'', b), (''final_total'', c),
           (''coupon_discount'', d), (''auto_discount'', e), (''items'', f)])"
  by (simp add: PriceCalculation_new_def PriceCalculation_field_errors_def)

lemma empty_price_calculation_value:
  "empty_price_calculation =
     Inl (ValidationError [''course_items'', ''original_amount'', ''final_amount'', ''savings'',
                           ''savings_percentage''])"
  by (simp add: empty_price_calculation_def PriceCalculation_new_def
        PriceCalculation_field_errors_def required_amount_def optional_amount_def
        decimal_field_def)

text \<open>No call of the three service functions returns a result: each raises.\<close>

lemma calculate_base_price_fails:
  "isl (fst (calculate_base_price st cs u code now))"
  unfolding calculate_base_price_def Let_def
  by (simp add: service_price_calculation_fails split: prod.splits sum.splits option.splits)

lemma calculate_base_price_store:
  "snd (calculate_base_price st cs u code now) = st"
proof -
  have v: "\<And>k a. snd (validate_coupon_for_user st k u a None now) = st"
    unfolding validate_coupon_for_user_def Let_def
    by (simp split: sum.splits option.splits)
  have v': "\<And>k a r s'. validate_coupon_for_user st k u a None now = (r, s') \<Longrightarrow> s' = st"
    using v by (metis snd_conv)
  show ?thesis
    unfolding calculate_base_price_def Let_def
    by (auto split: prod.splits sum.splits option.splits dest: v')
qed

lemma calculate_price_with_options_fails:
  "isl (fst (calculate_price_with_options st ids u p code now))"
proof -
  have "\<And>cs pc st1. calculate_base_price st cs u code now \<noteq> (Inr pc, st1)"
    using calculate_base_price_fails by (metis fst_conv sum.disc(2))
  then show ?thesis
    unfolding calculate_price_with_options_def
    by (simp add: empty_price_result_def empty_price_calculation_value
          split: prod.splits sum.splits)
qed

lemma apply_agent_discount_decision_fails:
  "isl (fst (apply_agent_discount_decision st u ids sel r code now))"
proof -
  have "\<And>cs pc st1. calculate_base_price st cs u code now \<noteq> (Inr pc, st1)"
    using calculate_base_price_fails by (metis fst_conv sum.disc(2))
  then show ?thesis
    unfolding apply_agent_discount_decision_def
    by (simp add: empty_price_calculation_value split: prod.splits sum.splits)
qed

lemma apply_agent_discount_decision_no_record:
  "applied_discounts (snd (apply_agent_discount_decision st u ids sel r code now)) =
     applied_discounts st"
proof -
  have n: "\<And>cs pc st1. calculate_base_price st cs u code now \<noteq> (Inr pc, st1)"
    using calculate_base_price_fails by (metis fst_conv sum.disc(2))
  have b: "\<And>cs r s'. calculate_base_price st cs u code now = (r, s') \<Longrightarrow> s' = st"
    using calculate_base_price_store by (metis snd_conv)
  show ?thesis
    unfolding apply_agent_discount_decision_def
    using n by (auto split: prod.splits sum.splits dest: b)
qed

text \<open>
  C1. In Scenario E (one course of 299.00, price sensitivity high)
  \<open>get_discount_options_for_agent\<close> raises KeyError: the profile does not say
  \<open>is_new_user\<close>, so \<open>new_user\<close> is offered, and its catalog entry has no key
  \<open>options\<close>. \<open>calculate_price_with_options\<close> raises even earlier, building the order
  items. In general \<open>get_discount_options_for_agent\<close> raises whenever a catalog category
  is offered and otherwise returns the no-discount entry alone: no catalog category ever
  contributes an entry.
\<close>

theorem options_for_agent_raises:
  "get_discount_options_for_agent ''u1'' [scenario_E_course] 299 (Some scenario_E_profile) =
     Inl (KeyError ''options'') \<and>
   fst (calculate_price_with_options scenario_E_store [''py101''] ''u1''
          (Some scenario_E_profile) None 0) =
     Inl (ValidationError [''item_id'', ''discounted_price'']) \<and>
   get_discount_options_for_agent u cs b p =
     (if offers_any p cs then Inl (KeyError ''options'') else Inr [no_discount_option b p])"
proof (intro conjI)
  show "get_discount_options_for_agent ''u1'' [scenario_E_course] 299 (Some scenario_E_profile) =
     Inl (KeyError ''options'')"
    by (simp add: options_for_agent offers_any_def scenario_E_profile_def py_get_def)
  show "fst (calculate_price_with_options scenario_E_store [''py101''] ''u1''
          (Some scenario_E_profile) None 0) =
     Inl (ValidationError [''item_id'', ''discounted_price''])"
    by (simp add: calculate_price_with_options_def get_by_course_id_def scenario_E_store_def
          scenario_E_course_def calculate_base_price_def course_order_item_value)
  show "get_discount_options_for_agent u cs b p =
     (if offers_any p cs then Inl (KeyError ''options'') else Inr [no_discount_option b p])"
    by (rule options_for_agent)
qed

text \<open>
  C2. In Scenario F \<open>apply_agent_discount_decision\<close> raises ValidationError while it
  builds the order items, returns no total and persists no record (the store is as it
  was). The discount formula it would then apply divides the fraction by 100: 0.15 on
  500.00 is 0.75, not 75.00.
\<close>

theorem agent_percentage_discount:
  "apply_agent_discount_decision scenario_F_store ''u1'' [''ml500''] scenario_F_selected
     ''reason'' None 0 =
     (Inl (ValidationError [''item_id'', ''discounted_price'']), scenario_F_store) \<and>
   agent_discount_amount scenario_F_selected 500 = Inr (3/4) \<and>
   calculate_discount_amount (PyDict scenario_F_selected) 500 = Inr (3/4)"
  by (simp add: apply_agent_discount_decision_def get_by_course_id_def scenario_F_store_def
        calculate_base_price_def course_order_item_value agent_discount_amount_def
        calculate_discount_amount_def scenario_F_selected_def)

text \<open>
  C5. With an accepted coupon (the validator computes 50.00 on the order of 1000.00)
  \<open>calculate_base_price\<close> raises AttributeError: it reads \<open>validation.discount_amount\<close>,
  and CouponValidation declares \<open>estimated_discount\<close>. With a refused coupon it goes on
  with a coupon discount of 0 and raises ValidationError at the order items. Either way
  \<open>calculate_price_with_options\<close> returns no base calculation.
\<close>

theorem coupon_discount_attribute:
  "calculate_base_price coupon_order_store [coupon_order_course] ''u1'' (Some ''SAVE20'') 7 =
     (Inl (AttributeError ''discount_amount''), coupon_order_store) \<and>
   calculate_base_price coupon_order_store [coupon_order_course] ''u1'' (Some ''NOPE'') 7 =
     (Inl (ValidationError [''item_id'', ''discounted_price'']), coupon_order_store) \<and>
   fst (calculate_price_with_options coupon_order_store [''ds1000''] ''u1'' None
          (Some ''SAVE20'') 7) =
     Inl (AttributeError ''discount_amount'') \<and>
   (case fst (validate_coupon_for_user coupon_order_store ''SAVE20'' ''u1'' 1000 None 7) of
      Inl e \<Rightarrow> None
    | Inr v \<Rightarrow> if cv_is_valid v then cv_estimated_discount v else None) = Some 50"
proof -
  have v: "validate_coupon_for_user coupon_order_store ''SAVE20'' ''u1'' 1000 None 7 =
        (Inr \<lparr>cv_is_valid = True,
              cv_coupon = Some (example_coupon\<lparr>applicable_courses := Some []\<rparr>),
              cv_validation_errors = [], cv_applicable_courses = [],
              cv_estimated_discount = Some 50, cv_min_order_required = None\<rparr>,
         coupon_order_store)"
    by (simp add: validate_coupon_for_user_def get_by_coupon_code_def coupon_order_store_def
          to_model_def example_coupon_ok)
       (simp add: example_coupon_def truthy_int_def truthy_dec_def
          validated_discount_amount_def)
  have n: "validate_coupon_for_user coupon_order_store ''NOPE'' ''u1'' 1000 None 7 =
        (Inr (invalid_result CouponNotFound None None), coupon_order_store)"
    by (simp add: validate_coupon_for_user_def get_by_coupon_code_def coupon_order_store_def
          example_coupon_def)
  have p: "crs_current_price coupon_order_course = 1000"
    "0 \<le> crs_current_price coupon_order_course"
    by (simp_all add: coupon_order_course_def)
  have 1: "calculate_base_price coupon_order_store [coupon_order_course] ''u1''
             (Some ''SAVE20'') 7 =
           (Inl (AttributeError ''discount_amount''), coupon_order_store)"
    by (simp add: calculate_base_price_def p v CouponValidation_amount_def
          CouponValidation_fields_def)
  have 2: "calculate_base_price coupon_order_store [coupon_order_course] ''u1''
             (Some ''NOPE'') 7 =
           (Inl (ValidationError [''item_id'', ''discounted_price'']), coupon_order_store)"
    by (simp add: calculate_base_price_def p n invalid_result_def course_order_item_value)
  have g: "get_courses coupon_order_store [''ds1000''] = Inr [coupon_order_course]"
    by (simp add: get_by_course_id_def coupon_order_store_def coupon_order_course_def)
  have 3: "fst (calculate_price_with_options coupon_order_store [''ds1000''] ''u1'' None
                  (Some ''SAVE20'') 7) =
           Inl (AttributeError ''discount_amount'')"
    unfolding calculate_price_with_options_def g by (simp add: 1)
  from 1 2 3 v show ?thesis by simp
qed

lemma get_courses_unresolved:
  "list_all (\<lambda>i. filter (\<lambda>c. crs_course_id c = i) (courses st) = []) ids \<Longrightarrow>
   get_courses st ids = Inr []"
  by (induction ids) (simp_all add: get_by_course_id_def)

lemma calculate_price_with_options_unresolved:
  "list_all (\<lambda>i. filter (\<lambda>c. crs_course_id c = i) (courses st) = []) ids \<Longrightarrow>
   calculate_price_with_options st ids u p code now =
     (Inl (ValidationError [''course_items'', ''original_amount'', ''final_amount'', ''savings'',
                            ''savings_percentage'']), st)"
  by (simp add: calculate_price_with_options_def get_courses_unresolved empty_price_result_def
        empty_price_calculation_value)

text \<open>
  C8. \<open>get_courses\<close> skips an id without a course and raises nothing. With no course
  resolved (an empty list of ids, or ids that name no course)
  \<open>calculate_price_with_options\<close> does not return the zeroed result: building it raises
  ValidationError, the PriceCalculation model missing five required fields.
\<close>

theorem empty_result_raises:
  "calculate_price_with_options scenario_E_store [] ''u1'' None None 0 =
     (Inl (ValidationError [''course_items'', ''original_amount'', ''final_amount'', ''savings'',
                            ''savings_percentage'']), scenario_E_store) \<and>
   calculate_price_with_options scenario_E_store [''nope''] ''u1'' None None 0 =
     (Inl (ValidationError [''course_items'', ''original_amount'', ''final_amount'', ''savings'',
                            ''savings_percentage'']), scenario_E_store) \<and>
   get_courses scenario_E_store [''nope'', ''py101'', ''gone''] = Inr [scenario_E_course]"
  by (simp add: calculate_price_with_options_def empty_price_result_def
        empty_price_calculation_value get_by_course_id_def scenario_E_store_def
        scenario_E_course_def)

end
